theory Spec2Isabelle
  imports Main "HOL-Library.Sublist"
begin

section \<open>Bitbox parameter generator: values and text\<close>

text \<open>
  The generator (\<^verbatim>\<open>Python_helper_scripts/param_generator.py\<close>) interpolates the fields
  of a configuration dictionary into HTML and JavaScript templates. The values that reach
  a text position are Python \<^verbatim>\<open>int\<close> and \<^verbatim>\<open>str\<close> objects (the annotated types of the
  generator's arguments); an f-string renders them with \<^verbatim>\<open>str()\<close>: an integer in
  decimal, a string as it is.
\<close>

datatype pyval = PInt int | PStr string

definition digit :: "nat \<Rightarrow> char" where
  "digit n = ''0123456789'' ! (n mod 10)"

function str_of_nat :: "nat \<Rightarrow> string" where
  "str_of_nat n = (if n < 10 then [digit n] else str_of_nat (n div 10) @ [digit n])"
  by pat_completeness auto
termination
  by (relation "measure (\<lambda>n. n)") auto

declare str_of_nat.simps [simp del]

definition str_of_int :: "int \<Rightarrow> string" where
  "str_of_int i = (if i < 0 then CHR ''-'' # str_of_nat (nat (- i)) else str_of_nat (nat i))"

fun py_str :: "pyval \<Rightarrow> string" where
  "py_str (PInt i) = str_of_int i"
| "py_str (PStr s) = s"

text \<open>\<^verbatim>\<open>sep.join(xs)\<close>\<close>

fun join :: "string \<Rightarrow> string list \<Rightarrow> string" where
  "join sep [] = []"
| "join sep [x] = x"
| "join sep (x # y # ys) = x @ sep @ join sep (y # ys)"

text \<open>The apostrophe, written apart where it ends a literal.\<close>

definition apostrophe :: string where
  "apostrophe = [CHR 0x27]"

text \<open>
  Exceptions are values. A subscript on a missing key raises \<^verbatim>\<open>KeyError\<close> with the
  key; a \<^verbatim>\<open>**\<close> call whose bag repeats a positional parameter raises \<^verbatim>\<open>TypeError\<close>.
\<close>

datatype error = KeyError string | TypeError

type_synonym pydict = "string \<rightharpoonup> pyval"

text \<open>\<^verbatim>\<open>d.get(k, default)\<close>\<close>

definition get :: "pydict \<Rightarrow> string \<Rightarrow> pyval \<Rightarrow> pyval" where
  "get d k dflt = (case d k of None \<Rightarrow> dflt | Some v \<Rightarrow> v)"

text \<open>
  \<^verbatim>\<open>str(kwargs.get(k, default))\<close> inside an f-string, the default given by its text:
  the defaults of the source are the literals \<^verbatim>\<open>1\<close>, \<^verbatim>\<open>0.1\<close> and \<^verbatim>\<open>20\<close>, and
  \<^verbatim>\<open>str(0.1)\<close> is \<^verbatim>\<open>0.1\<close>.
\<close>

definition get_text :: "pydict \<Rightarrow> string \<Rightarrow> string \<Rightarrow> string" where
  "get_text d k dflt_text = (case d k of None \<Rightarrow> dflt_text | Some v \<Rightarrow> py_str v)"

section \<open>Markup rendering\<close>

definition generate_slider_html :: "pyval \<Rightarrow> pyval \<Rightarrow> pyval \<Rightarrow> pyval \<Rightarrow> pyval \<Rightarrow> string" where
  \<open>generate_slider_html param_name label min_val max_val default_val =
     ''<div class="param">\<newline>''
     @ ''    <label class="param-label">'' @ py_str label @ ''</label>\<newline>''
     @ ''    <div class="param-control">\<newline>''
     @ ''        <input type="range" class="slider" id="'' @ py_str param_name
     @ ''" min="'' @ py_str min_val @ ''" max="'' @ py_str max_val
     @ ''" value="'' @ py_str default_val @ ''">\<newline>''
     @ ''        <span class="param-value" id="'' @ py_str param_name @ ''-val">0.0%</span>\<newline>''
     @ ''    </div>\<newline>''
     @ ''</div>''\<close>

text \<open>One element of the list comprehension: \<^verbatim>\<open>opt["value"]\<close> is read before \<^verbatim>\<open>opt["label"]\<close>.\<close>

definition option_line :: "pydict \<Rightarrow> error + string" where
  \<open>option_line opt =
     (case opt ''value'' of
        None \<Rightarrow> Inl (KeyError ''value'')
      | Some v \<Rightarrow>
          (case opt ''label'' of
             None \<Rightarrow> Inl (KeyError ''label'')
           | Some l \<Rightarrow>
               Inr (''                <option value="'' @ py_str v @ ''">'' @ py_str l @ ''</option>'')))\<close>

fun option_lines :: "pydict list \<Rightarrow> error + string list" where
  "option_lines [] = Inr []"
| "option_lines (opt # options) =
     (case option_line opt of
        Inl e \<Rightarrow> Inl e
      | Inr l \<Rightarrow> (case option_lines options of Inl e \<Rightarrow> Inl e | Inr ls \<Rightarrow> Inr (l # ls)))"

definition generate_dropdown_html :: "pyval \<Rightarrow> pyval \<Rightarrow> pydict list \<Rightarrow> error + string" where
  \<open>generate_dropdown_html param_name label options =
     (case option_lines options of
        Inl e \<Rightarrow> Inl e
      | Inr ls \<Rightarrow>
          (let options_html = join ''\<newline>'' ls
           in Inr (''<div class="param">\<newline>''
                   @ ''    <label class="param-label">'' @ py_str label @ ''</label>\<newline>''
                   @ ''    <select class="select" id="'' @ py_str param_name @ ''">\<newline>''
                   @ options_html @ ''\<newline>''
                   @ ''    </select>\<newline>''
                   @ ''</div>'')))\<close>

section \<open>Codec snippets\<close>

text \<open>
  The display formatter of a codec is a JavaScript \<^verbatim>\<open>case\<close> fragment keyed on the
  parameter name; the parser is a \<^verbatim>\<open>return\<close> fragment. Both are text: the generator
  never runs them.
\<close>

definition case_label :: "pyval \<Rightarrow> string" where
  "case_label param_name = ''case '' @ apostrophe @ py_str param_name @ apostrophe @ '':\<newline>''"

definition percentage_formatter :: "pyval \<Rightarrow> string" where
  "percentage_formatter param_name =
     case_label param_name
     @ ''    text = (val / 10).toFixed(1) + '%';\<newline>''
     @ ''    break;''"

definition db_formatter :: "pyval \<Rightarrow> string" where
  "db_formatter param_name =
     case_label param_name
     @ ''    text = (val >= 0 ? '+' : '' @ apostrophe @ apostrophe
     @ '') + (val / 1000).toFixed(1) + ' dB';\<newline>''
     @ ''    break;''"

definition semitones_formatter :: "pyval \<Rightarrow> string" where
  "semitones_formatter param_name =
     case_label param_name
     @ ''    text = (val >= 0 ? '+' : '' @ apostrophe @ apostrophe
     @ '') + (val / 1000).toFixed(2) + ' st';\<newline>''
     @ ''    break;''"

definition ms_formatter :: "pyval \<Rightarrow> pydict \<Rightarrow> string" where
  "ms_formatter param_name kwargs =
     case_label param_name
     @ ''    text = (val / '' @ get_text kwargs ''divisor'' ''1'' @ '').toFixed(1) + ' ms';\<newline>''
     @ ''    break;''"

definition hz_formatter :: "pyval \<Rightarrow> pydict \<Rightarrow> string" where
  "hz_formatter param_name kwargs =
     case_label param_name
     @ ''    const hz_'' @ py_str param_name @ '' = '' @ get_text kwargs ''min_hz'' ''0.1''
     @ '' + ((val / 1000) * ('' @ get_text kwargs ''max_hz'' ''20'' @ '' - ''
     @ get_text kwargs ''min_hz'' ''0.1'' @ ''));\<newline>''
     @ ''    text = hz_'' @ py_str param_name @ ''.toFixed(2) + ' Hz';\<newline>''
     @ ''    break;''"

definition formatters :: "pyval \<Rightarrow> pydict \<Rightarrow> (pyval \<times> pyval) list" where
  "formatters param_name kwargs =
     [(PStr ''percentage'', PStr (percentage_formatter param_name)),
      (PStr ''db'', PStr (db_formatter param_name)),
      (PStr ''semitones'', PStr (semitones_formatter param_name)),
      (PStr ''ms'', PStr (ms_formatter param_name kwargs)),
      (PStr ''hz'', PStr (hz_formatter param_name kwargs)),
      (PStr ''custom'', get kwargs ''custom_code'' (PStr ''// Add custom formatting here''))]"

text \<open>\<^verbatim>\<open>formatters.get(format_type, formatters['percentage'])\<close>\<close>

definition generate_display_formatter :: "pyval \<Rightarrow> pyval \<Rightarrow> pydict \<Rightarrow> pyval" where
  "generate_display_formatter param_name format_type kwargs =
     (case map_of (formatters param_name kwargs) format_type of
        Some text \<Rightarrow> text
      | None \<Rightarrow> PStr (percentage_formatter param_name))"

definition hz_parser :: "pydict \<Rightarrow> string" where
  "hz_parser kwargs =
     ''const hz = parseFloat(text);\<newline>''
     @ ''if (isNaN(hz) || hz < '' @ get_text kwargs ''min_hz'' ''0.1''
     @ '' || hz > '' @ get_text kwargs ''max_hz'' ''20'' @ '') return null;\<newline>''
     @ ''return Math.round(((hz - '' @ get_text kwargs ''min_hz'' ''0.1''
     @ '') / ('' @ get_text kwargs ''max_hz'' ''20'' @ '' - ''
     @ get_text kwargs ''min_hz'' ''0.1'' @ '')) * 1000);''"

definition parsers :: "pyval \<Rightarrow> pydict \<Rightarrow> (pyval \<times> pyval) list" where
  "parsers param_name kwargs =
     [(PStr ''percentage'', PStr ''return Math.round(val * 10);''),
      (PStr ''db'', PStr ''return Math.round(val * 1000);''),
      (PStr ''semitones'', PStr ''return Math.round(val * 1000);''),
      (PStr ''ms'', PStr (''return Math.round(val * '' @ get_text kwargs ''divisor'' ''1'' @ '');'')),
      (PStr ''hz'', PStr (hz_parser kwargs)),
      (PStr ''custom'', get kwargs ''custom_code'' (PStr ''return Math.round(val);''))]"

definition generate_parser :: "pyval \<Rightarrow> pyval \<Rightarrow> pydict \<Rightarrow> pyval" where
  "generate_parser param_name format_type kwargs =
     (case map_of (parsers param_name kwargs) format_type of
        Some text \<Rightarrow> text
      | None \<Rightarrow> PStr ''return Math.round(val * 10);'')"

section \<open>The membership lists\<close>

text \<open>
  The generator object holds one dictionary, \<^verbatim>\<open>param_types\<close>, with the two keys
  \<^verbatim>\<open>'slider'\<close> and \<^verbatim>\<open>'dropdown'\<close>, each a list of names that \<^verbatim>\<open>add_to_lists\<close>
  extends in place. The dictionary it returns holds the two list objects themselves, not
  copies: its four entries are references, read through the generator's state.
\<close>

record param_types =
  slider :: "pyval list"
  dropdown :: "pyval list"

definition init :: param_types where
  "init = \<lparr>
     slider = map PStr [''gaindb'', ''pitch'', ''panpos'', ''dualfilcutoff'', ''res'', ''envattack'',
       ''envdecay'', ''envsus'', ''envrel'', ''lforate'', ''lfoamount'', ''samstart'', ''samlen'',
       ''loopstart'', ''loopend'', ''loopfadeamt'', ''actslice'', ''grainsizeperc'', ''grainscat'',
       ''grainpanrnd'', ''graindensity'', ''grainreadspeed'', ''gainssrcwin'', ''rootnote'',
       ''fx1send'', ''fx2send''],
     dropdown = map PStr [''cellmode'', ''loopmodes'', ''loopmode'', ''samtrigtype'', ''polymode'',
       ''lfowave'', ''lfokeytrig'', ''lfobeatsync'', ''lforatebeatsync'', ''midimode'', ''reverse'',
       ''outputbus'', ''chokegrp'', ''slicestepmode''] \<rparr>"

datatype listref = SliderList | DropdownList

fun deref :: "param_types \<Rightarrow> listref \<Rightarrow> pyval list" where
  "deref self SliderList = slider self"
| "deref self DropdownList = dropdown self"

definition add_to_lists ::
  "pyval \<Rightarrow> pyval \<Rightarrow> param_types \<Rightarrow> (string \<rightharpoonup> listref) \<times> param_types" where
  "add_to_lists param_name param_type self =
     ([''setupParameterListeners_sliders'' \<mapsto> SliderList,
       ''setupParameterListeners_dropdowns'' \<mapsto> DropdownList,
       ''loadParamsToModal_sliders'' \<mapsto> SliderList,
       ''loadParamsToModal_dropdowns'' \<mapsto> DropdownList],
      (if param_type = PStr ''slider''
       then self\<lparr>slider := slider self @ [param_name]\<rparr>
       else self\<lparr>dropdown := dropdown self @ [param_name]\<rparr>))"

section \<open>Compiling one parameter\<close>

definition generate_default_param :: "pyval \<Rightarrow> pyval \<Rightarrow> string" where
  "generate_default_param param_name default_value =
     py_str param_name @ '': '' @ apostrophe @ py_str default_value @ apostrophe"

text \<open>
  The configuration dictionary, by the keys the generator reads: a field is \<open>None\<close> when
  the key is absent. \<^verbatim>\<open>format_options\<close> is a keyword bag, \<^verbatim>\<open>options\<close> a list of
  dictionaries.
\<close>

record config =
  cfg_name :: "pyval option"
  cfg_type :: "pyval option"
  cfg_label :: "pyval option"
  cfg_min :: "pyval option"
  cfg_max :: "pyval option"
  cfg_default :: "pyval option"
  cfg_format :: "pyval option"
  cfg_format_options :: "pydict option"
  cfg_options :: "pydict list option"

text \<open>\<^verbatim>\<open>config.get(k, default)\<close> on a field.\<close>

definition or_default :: "'a option \<Rightarrow> 'a \<Rightarrow> 'a" where
  "or_default field dflt = (case field of None \<Rightarrow> dflt | Some v \<Rightarrow> v)"

text \<open>
  \<^verbatim>\<open>self.f(param_name, format_type, **bag)\<close>: a bag with one of the keys \<^verbatim>\<open>self\<close>,
  \<^verbatim>\<open>param_name\<close>, \<^verbatim>\<open>format_type\<close> gives that parameter a second value, and the call
  raises \<^verbatim>\<open>TypeError\<close> before the body runs.
\<close>

definition keyword_call :: "pydict \<Rightarrow> error + pydict" where
  "keyword_call bag =
     (if bag ''self'' \<noteq> None \<or> bag ''param_name'' \<noteq> None \<or> bag ''format_type'' \<noteq> None
      then Inl TypeError else Inr bag)"

text \<open>An entry of the result dictionary: a text, or the dictionary of list references.\<close>

datatype artifact = Text pyval | Lists "string \<rightharpoonup> listref"

type_synonym result = "string \<rightharpoonup> artifact"

text \<open>
  The call returns the result or the exception, and the generator's state after it. The
  state changes in \<^verbatim>\<open>add_to_lists\<close> only, the last statement before \<^verbatim>\<open>return\<close>.
\<close>

definition generate_full_parameter :: "config \<Rightarrow> param_types \<Rightarrow> (error + result) \<times> param_types" where
  "generate_full_parameter config self =
     (case cfg_name config of
        None \<Rightarrow> (Inl (KeyError ''name''), self)
      | Some param_name \<Rightarrow>
     (case cfg_type config of
        None \<Rightarrow> (Inl (KeyError ''type''), self)
      | Some param_type \<Rightarrow>
     (let result = [''param_name'' \<mapsto> Text param_name,
                    ''default_param'' \<mapsto> Text (PStr (generate_default_param param_name
                                            (or_default (cfg_default config) (PStr ''0''))))]
      in
      if param_type = PStr ''slider'' then
        (case cfg_label config of
           None \<Rightarrow> (Inl (KeyError ''label''), self)
         | Some label \<Rightarrow>
        (case cfg_min config of
           None \<Rightarrow> (Inl (KeyError ''min''), self)
         | Some min_val \<Rightarrow>
        (case cfg_max config of
           None \<Rightarrow> (Inl (KeyError ''max''), self)
         | Some max_val \<Rightarrow>
        (let result = result(''html'' \<mapsto> Text (PStr (generate_slider_html param_name label
                                 min_val max_val (or_default (cfg_default config) (PInt 0)))))
         in
         case keyword_call (or_default (cfg_format_options config) Map.empty) of
           Inl e \<Rightarrow> (Inl e, self)
         | Inr kwargs \<Rightarrow>
        (let result = result(''display_formatter'' \<mapsto> Text (generate_display_formatter param_name
                                 (or_default (cfg_format config) (PStr ''percentage'')) kwargs))
         in
         case keyword_call (or_default (cfg_format_options config) Map.empty) of
           Inl e \<Rightarrow> (Inl e, self)
         | Inr kwargs \<Rightarrow>
        (let result = result(''parser'' \<mapsto> Text (generate_parser param_name
                                 (or_default (cfg_format config) (PStr ''percentage'')) kwargs));
             (updated_lists, self') = add_to_lists param_name param_type self
         in (Inr (result(''updated_lists'' \<mapsto> Lists updated_lists)), self')))))))
      else
        (case cfg_label config of
           None \<Rightarrow> (Inl (KeyError ''label''), self)
         | Some label \<Rightarrow>
        (case cfg_options config of
           None \<Rightarrow> (Inl (KeyError ''options''), self)
         | Some options \<Rightarrow>
        (case generate_dropdown_html param_name label options of
           Inl e \<Rightarrow> (Inl e, self)
         | Inr html \<Rightarrow>
        (let result = result(''html'' \<mapsto> Text (PStr html));
             (updated_lists, self') = add_to_lists param_name param_type self
         in (Inr (result(''updated_lists'' \<mapsto> Lists updated_lists)), self'))))))))"

text \<open>The three configurations of the script's \<^verbatim>\<open>main\<close>.\<close>

definition no_config :: config where
  "no_config = \<lparr> cfg_name = None, cfg_type = None, cfg_label = None, cfg_min = None,
     cfg_max = None, cfg_default = None, cfg_format = None, cfg_format_options = None,
     cfg_options = None \<rparr>"

definition distortion_config :: config where
  "distortion_config = no_config \<lparr> cfg_name := Some (PStr ''distortion''),
     cfg_type := Some (PStr ''slider''), cfg_label := Some (PStr ''Distortion''),
     cfg_min := Some (PInt 0), cfg_max := Some (PInt 1000), cfg_default := Some (PInt 0),
     cfg_format := Some (PStr ''percentage'') \<rparr>"

definition filter_type_config :: config where
  "filter_type_config = no_config \<lparr> cfg_name := Some (PStr ''filtertype''),
     cfg_type := Some (PStr ''dropdown''), cfg_label := Some (PStr ''Filter Type''),
     cfg_default := Some (PStr ''0''),
     cfg_options := Some
       [[''value'' \<mapsto> PStr ''0'', ''label'' \<mapsto> PStr ''Low Pass''],
        [''value'' \<mapsto> PStr ''1'', ''label'' \<mapsto> PStr ''High Pass''],
        [''value'' \<mapsto> PStr ''2'', ''label'' \<mapsto> PStr ''Band Pass''],
        [''value'' \<mapsto> PStr ''3'', ''label'' \<mapsto> PStr ''Notch'']] \<rparr>"

definition cutoff_config :: config where
  "cutoff_config = no_config \<lparr> cfg_name := Some (PStr ''filtercutoff''),
     cfg_type := Some (PStr ''slider''), cfg_label := Some (PStr ''Filter Cutoff''),
     cfg_min := Some (PInt 0), cfg_max := Some (PInt 1000), cfg_default := Some (PInt 500),
     cfg_format := Some (PStr ''hz''),
     cfg_format_options := Some [''min_hz'' \<mapsto> PInt 20, ''max_hz'' \<mapsto> PInt 20000] \<rparr>"

text \<open>
  Configurations used as concrete inputs below: the distortion slider compiled again as a
  dropdown, the filter-type descriptor with the kind \<^verbatim>\<open>'continuous'\<close>, the distortion
  slider without its label, and a descriptor whose texts hold markup-reserved characters.
\<close>

definition distortion_dropdown_config :: config where
  "distortion_dropdown_config = distortion_config \<lparr> cfg_type := Some (PStr ''dropdown''),
     cfg_options := Some [[''value'' \<mapsto> PStr ''0'', ''label'' \<mapsto> PStr ''Off''],
                          [''value'' \<mapsto> PStr ''1'', ''label'' \<mapsto> PStr ''On'']] \<rparr>"

definition continuous_config :: config where
  "continuous_config = filter_type_config \<lparr> cfg_type := Some (PStr ''continuous'') \<rparr>"

definition unlabelled_config :: config where
  "unlabelled_config = distortion_config \<lparr> cfg_label := None \<rparr>"

definition reserved_options :: "pydict list" where
  "reserved_options = [[''value'' \<mapsto> PStr ''<1>'', ''label'' \<mapsto> PStr ''R&B'']]"

section \<open>Sequences of compilations and the returned views\<close>

text \<open>
  A session compiles one configuration after another on the same generator; a caller that
  catches an exception carries on with the state the failed call left.
\<close>

fun compile_all :: "config list \<Rightarrow> param_types \<Rightarrow> (error + result) list \<times> param_types" where
  "compile_all [] self = ([], self)"
| "compile_all (config # configs) self =
     (let (r, self') = generate_full_parameter config self;
          (rs, self'') = compile_all configs self'
      in (r # rs, self''))"

text \<open>
  \<^verbatim>\<open>r['updated_lists'][key]\<close>, read while the generator is in state \<open>self\<close>: the entry
  is a reference to one of the generator's two lists.
\<close>

definition view :: "param_types \<Rightarrow> result \<Rightarrow> string \<Rightarrow> pyval list option" where
  "view self r key =
     (case r ''updated_lists'' of
        Some (Lists refs) \<Rightarrow> map_option (deref self) (refs key)
      | _ \<Rightarrow> None)"

section \<open>Escaping, as the specification words it\<close>

text \<open>
  The source has no escaping function. \<open>spec_escape\<close> is the specification's
  "escaped for the markup context", the usual replacement of the reserved characters of
  HTML text and attribute values; it is what the generated markup is compared with.
\<close>

fun escape_char :: "char \<Rightarrow> string" where
  \<open>escape_char c =
     (if c = CHR ''&'' then ''&amp;''
      else if c = CHR ''<'' then ''&lt;''
      else if c = CHR ''>'' then ''&gt;''
      else if c = CHR 0x22 then ''&quot;''
      else [c])\<close>

definition spec_escape :: "string \<Rightarrow> string" where
  "spec_escape s = concat (map escape_char s)"

section \<open>Facts about one compilation\<close>

lemmas compile_defs =
  generate_full_parameter_def add_to_lists_def keyword_call_def or_default_def Let_def
  generate_dropdown_html_def option_line_def init_def no_config_def

text \<open>The result of a call does not depend on the generator's state.\<close>

lemma result_state_free:
  "fst (generate_full_parameter config self) = fst (generate_full_parameter config self')"
  unfolding generate_full_parameter_def Let_def add_to_lists_def
  by (simp split: option.splits sum.splits prod.splits)

text \<open>A call that returns has read a name and a kind, and ended in \<open>add_to_lists\<close>.\<close>

lemma returned:
  assumes "generate_full_parameter config self = (Inr r, self')"
  shows "\<exists>n t. cfg_name config = Some n \<and> cfg_type config = Some t
           \<and> self' = snd (add_to_lists n t self)
           \<and> r ''param_name'' = Some (Text n)
           \<and> r ''default_param'' = Some (Text (PStr (generate_default_param n
                   (or_default (cfg_default config) (PStr ''0'')))))
           \<and> r ''updated_lists'' = Some (Lists (fst (add_to_lists n t self)))"
  using assms unfolding generate_full_parameter_def Let_def
  by (auto split: option.splits sum.splits if_splits prod.splits)

lemma returns_anywhere:
  assumes "generate_full_parameter config self0 = (Inr r, self0')"
    and "cfg_name config = Some n" "cfg_type config = Some t"
  shows "generate_full_parameter config self = (Inr r, snd (add_to_lists n t self))"
proof -
  have "fst (generate_full_parameter config self) = Inr r"
    using result_state_free [of config self self0] assms(1) by simp
  moreover from this have "snd (generate_full_parameter config self) = snd (add_to_lists n t self)"
    using assms(2,3) unfolding generate_full_parameter_def Let_def
    by (auto split: option.splits sum.splits if_splits prod.splits)
  ultimately show ?thesis by (simp add: prod_eq_iff)
qed

text \<open>The four views of a returned result, read in any state of the generator.\<close>

lemma returned_views:
  assumes "generate_full_parameter config self = (Inr r, self')"
  shows "view s r ''setupParameterListeners_sliders'' = Some (slider s)
       \<and> view s r ''loadParamsToModal_sliders'' = Some (slider s)
       \<and> view s r ''setupParameterListeners_dropdowns'' = Some (dropdown s)
       \<and> view s r ''loadParamsToModal_dropdowns'' = Some (dropdown s)"
  using returned [OF assms] by (auto simp: view_def add_to_lists_def)

lemma add_to_lists_state:
  "snd (add_to_lists n t self) =
     (if t = PStr ''slider'' then self\<lparr>slider := slider self @ [n]\<rparr>
      else self\<lparr>dropdown := dropdown self @ [n]\<rparr>)"
  by (simp add: add_to_lists_def)

section \<open>Recompiling a descriptor\<close>

text \<open>
  C1 (amended). Compiling the same configuration a second time returns the same result
  dictionary as the first call: the same texts, and the same four references to the
  generator's two lists. It appends the name once more, since the generator has no
  membership test: the list of the descriptor's kind, as the result shows it at the second
  return, is the list shown at the first return with the name appended again. That list
  is one entry longer than at the first return and holds the name at least twice; the list
  of the other kind is unchanged.
\<close>

theorem recompile_appends_again:
  assumes "generate_full_parameter config self = (Inr r1, self1)"
  shows "\<exists>n t self2. cfg_name config = Some n \<and> cfg_type config = Some t
           \<and> generate_full_parameter config self1 = (Inr r1, self2)
           \<and> (t = PStr ''slider'' \<longrightarrow>
                 slider self2 = slider self1 @ [n] \<and> dropdown self2 = dropdown self1
                 \<and> length (slider self2) = Suc (length (slider self1))
                 \<and> 2 \<le> count_list (slider self2) n
                 \<and> view self1 r1 ''setupParameterListeners_sliders'' = Some (slider self1)
                 \<and> view self2 r1 ''setupParameterListeners_sliders'' = Some (slider self1 @ [n])
                 \<and> view self1 r1 ''loadParamsToModal_sliders'' = Some (slider self1)
                 \<and> view self2 r1 ''loadParamsToModal_sliders'' = Some (slider self1 @ [n]))
           \<and> (t \<noteq> PStr ''slider'' \<longrightarrow>
                 dropdown self2 = dropdown self1 @ [n] \<and> slider self2 = slider self1
                 \<and> length (dropdown self2) = Suc (length (dropdown self1))
                 \<and> 2 \<le> count_list (dropdown self2) n
                 \<and> view self1 r1 ''setupParameterListeners_dropdowns'' = Some (dropdown self1)
                 \<and> view self2 r1 ''setupParameterListeners_dropdowns'' = Some (dropdown self1 @ [n])
                 \<and> view self1 r1 ''loadParamsToModal_dropdowns'' = Some (dropdown self1)
                 \<and> view self2 r1 ''loadParamsToModal_dropdowns'' = Some (dropdown self1 @ [n]))"
proof -
  from returned [OF assms] obtain n t where nt: "cfg_name config = Some n" "cfg_type config = Some t"
    and s1: "self1 = snd (add_to_lists n t self)"
    by blast
  define self2 where "self2 = snd (add_to_lists n t self1)"
  have again: "generate_full_parameter config self1 = (Inr r1, self2)"
    unfolding self2_def using assms nt by (rule returns_anywhere)
  have v1: "view self1 r1 ''setupParameterListeners_sliders'' = Some (slider self1)"
    "view self1 r1 ''loadParamsToModal_sliders'' = Some (slider self1)"
    "view self1 r1 ''setupParameterListeners_dropdowns'' = Some (dropdown self1)"
    "view self1 r1 ''loadParamsToModal_dropdowns'' = Some (dropdown self1)"
    using returned_views [OF assms, of self1] by simp_all
  have v2: "view self2 r1 ''setupParameterListeners_sliders'' = Some (slider self2)"
    "view self2 r1 ''loadParamsToModal_sliders'' = Some (slider self2)"
    "view self2 r1 ''setupParameterListeners_dropdowns'' = Some (dropdown self2)"
    "view self2 r1 ''loadParamsToModal_dropdowns'' = Some (dropdown self2)"
    using returned_views [OF assms, of self2] by simp_all
  have sl: "slider self2 = slider self1 @ [n]" "dropdown self2 = dropdown self1"
    "2 \<le> count_list (slider self2) n" if "t = PStr ''slider''"
    using that by (simp_all add: self2_def s1 add_to_lists_def)
  have dr: "dropdown self2 = dropdown self1 @ [n]" "slider self2 = slider self1"
    "2 \<le> count_list (dropdown self2) n" if "t \<noteq> PStr ''slider''"
    using that by (simp_all add: self2_def s1 add_to_lists_def)
  have "t = PStr ''slider'' \<longrightarrow>
          slider self2 = slider self1 @ [n] \<and> dropdown self2 = dropdown self1
          \<and> length (slider self2) = Suc (length (slider self1))
          \<and> 2 \<le> count_list (slider self2) n
          \<and> view self1 r1 ''setupParameterListeners_sliders'' = Some (slider self1)
          \<and> view self2 r1 ''setupParameterListeners_sliders'' = Some (slider self1 @ [n])
          \<and> view self1 r1 ''loadParamsToModal_sliders'' = Some (slider self1)
          \<and> view self2 r1 ''loadParamsToModal_sliders'' = Some (slider self1 @ [n])"
    using sl v1 v2 by simp
  moreover have "t \<noteq> PStr ''slider'' \<longrightarrow>
          dropdown self2 = dropdown self1 @ [n] \<and> slider self2 = slider self1
          \<and> length (dropdown self2) = Suc (length (dropdown self1))
          \<and> 2 \<le> count_list (dropdown self2) n
          \<and> view self1 r1 ''setupParameterListeners_dropdowns'' = Some (dropdown self1)
          \<and> view self2 r1 ''setupParameterListeners_dropdowns'' = Some (dropdown self1 @ [n])
          \<and> view self1 r1 ''loadParamsToModal_dropdowns'' = Some (dropdown self1)
          \<and> view self2 r1 ''loadParamsToModal_dropdowns'' = Some (dropdown self1 @ [n])"
    using dr v1 v2 by simp
  ultimately show ?thesis using nt again by blast
qed

theorem recompile_appends_again_witness:
  "\<exists>r s1 s2. generate_full_parameter distortion_config init = (Inr r, s1)
     \<and> generate_full_parameter distortion_config s1 = (Inr r, s2)
     \<and> slider s2 = slider s1 @ [PStr ''distortion'']
     \<and> 2 \<le> count_list (slider s2) (PStr ''distortion'')
     \<and> view s1 r ''setupParameterListeners_sliders'' = Some (slider s1)
     \<and> view s2 r ''setupParameterListeners_sliders'' = Some (slider s1 @ [PStr ''distortion''])"
proof -
  obtain r s1 where a: "generate_full_parameter distortion_config init = (Inr r, s1)"
    by (simp add: compile_defs distortion_config_def)
  have b: "cfg_name distortion_config = Some (PStr ''distortion'')"
    "cfg_type distortion_config = Some (PStr ''slider'')"
    by (simp_all add: distortion_config_def no_config_def)
  from recompile_appends_again [OF a] b obtain s2 where
    "generate_full_parameter distortion_config s1 = (Inr r, s2)"
    "slider s2 = slider s1 @ [PStr ''distortion'']"
    "2 \<le> count_list (slider s2) (PStr ''distortion'')"
    "view s1 r ''setupParameterListeners_sliders'' = Some (slider s1)"
    "view s2 r ''setupParameterListeners_sliders'' = Some (slider s1 @ [PStr ''distortion''])"
    by auto
  with a show ?thesis by blast
qed

text \<open>
  Counterexample to C1 as stated: after the distortion slider of the script has been
  compiled twice on a fresh generator, the slider list is longer than after the first call
  and holds \<^verbatim>\<open>distortion\<close> twice.
\<close>

theorem recompile_counterexample:
  "length (slider (snd (generate_full_parameter distortion_config
       (snd (generate_full_parameter distortion_config init)))))
   \<noteq> length (slider (snd (generate_full_parameter distortion_config init)))
   \<and> count_list (slider (snd (generate_full_parameter distortion_config
       (snd (generate_full_parameter distortion_config init))))) (PStr ''distortion'') = 2"
  by (simp add: compile_defs distortion_config_def)

section \<open>One name under two kinds\<close>

text \<open>
  C3 (amended). The registry is never consulted: a configuration that compiles on some
  generator compiles on every generator. So when a name has been compiled as one kind and
  a configuration with the same name and the other kind is compiled next, the second call
  returns its result as well and appends the name to the list of the second kind; the
  name is then in both lists.
\<close>

theorem same_name_other_kind_accepted:
  assumes "generate_full_parameter c1 self = (Inr r1, self1)"
    and "generate_full_parameter c2 self0 = (Inr r2, self0')"
    and "cfg_name c2 = cfg_name c1"
    and "(cfg_type c1 = Some (PStr ''slider'')) \<noteq> (cfg_type c2 = Some (PStr ''slider''))"
  shows "\<exists>n t self2. cfg_name c2 = Some n \<and> cfg_type c2 = Some t
           \<and> generate_full_parameter c2 self1 = (Inr r2, self2)
           \<and> self2 = (if t = PStr ''slider'' then self1\<lparr>slider := slider self1 @ [n]\<rparr>
                       else self1\<lparr>dropdown := dropdown self1 @ [n]\<rparr>)
           \<and> n \<in> set (slider self2) \<and> n \<in> set (dropdown self2)"
proof -
  from returned [OF assms(1)] obtain n t1 where c1: "cfg_name c1 = Some n" "cfg_type c1 = Some t1"
    and s1: "self1 = snd (add_to_lists n t1 self)"
    by blast
  from returned [OF assms(2)] assms(3) c1 obtain t2 where
    c2: "cfg_name c2 = Some n" "cfg_type c2 = Some t2"
    by auto
  have "generate_full_parameter c2 self1 = (Inr r2, snd (add_to_lists n t2 self1))"
    using assms(2) c2 by (rule returns_anywhere)
  moreover have "n \<in> set (slider (snd (add_to_lists n t2 self1)))"
    "n \<in> set (dropdown (snd (add_to_lists n t2 self1)))"
    using assms(4) c1 c2 s1 by (auto simp: add_to_lists_def)
  ultimately show ?thesis using c2 unfolding add_to_lists_state by auto
qed

theorem same_name_other_kind_accepted_witness:
  "\<exists>r s1 s2. generate_full_parameter distortion_config init = (Inr r, s1)
     \<and> snd (generate_full_parameter distortion_dropdown_config s1) = s2
     \<and> s2 = s1\<lparr>dropdown := dropdown s1 @ [PStr ''distortion'']\<rparr>
     \<and> PStr ''distortion'' \<in> set (slider s2) \<and> PStr ''distortion'' \<in> set (dropdown s2)"
proof -
  obtain r1 s1 where a: "generate_full_parameter distortion_config init = (Inr r1, s1)"
    by (simp add: compile_defs distortion_config_def distortion_dropdown_config_def)
  obtain r2 s2 where b: "generate_full_parameter distortion_dropdown_config init = (Inr r2, s2)"
    by (simp add: compile_defs distortion_config_def distortion_dropdown_config_def)
  have c: "cfg_name distortion_dropdown_config = cfg_name distortion_config"
    by (simp add: compile_defs distortion_config_def distortion_dropdown_config_def)
  have d: "(cfg_type distortion_config = Some (PStr ''slider''))
           \<noteq> (cfg_type distortion_dropdown_config = Some (PStr ''slider''))"
    by (simp add: compile_defs distortion_config_def distortion_dropdown_config_def)
  have e: "cfg_name distortion_dropdown_config = Some (PStr ''distortion'')"
    "cfg_type distortion_dropdown_config = Some (PStr ''dropdown'')"
    by (simp_all add: compile_defs distortion_config_def distortion_dropdown_config_def)
  from same_name_other_kind_accepted [OF a b c d] a e show ?thesis by auto
qed

text \<open>
  Counterexample to C3 as stated: \<^verbatim>\<open>distortion\<close> compiled as a slider and then as a
  dropdown. Neither call raises, the second call changes the state, and the name is in the
  dropdown list afterwards.
\<close>

theorem same_name_other_kind_counterexample:
  "\<not> isl (fst (generate_full_parameter distortion_config init))
   \<and> \<not> isl (fst (generate_full_parameter distortion_dropdown_config
                 (snd (generate_full_parameter distortion_config init))))
   \<and> snd (generate_full_parameter distortion_dropdown_config
                 (snd (generate_full_parameter distortion_config init)))
       \<noteq> snd (generate_full_parameter distortion_config init)
   \<and> PStr ''distortion'' \<in> set (dropdown (snd (generate_full_parameter distortion_dropdown_config
                 (snd (generate_full_parameter distortion_config init)))))"
  by (simp add: compile_defs distortion_config_def distortion_dropdown_config_def)

section \<open>Failed calls\<close>

text \<open>
  C6. Whenever \<open>generate_full_parameter\<close> raises (a missing \<^verbatim>\<open>name\<close>, \<^verbatim>\<open>type\<close>,
  \<^verbatim>\<open>label\<close>, \<^verbatim>\<open>min\<close>, \<^verbatim>\<open>max\<close> or \<^verbatim>\<open>options\<close>, an option without \<^verbatim>\<open>value\<close> or
  \<^verbatim>\<open>label\<close>, a keyword bag that repeats a positional parameter), the two membership
  lists are what they were before the call.
\<close>

theorem error_leaves_lists_unchanged:
  "fst (generate_full_parameter config self) = Inl e
   \<Longrightarrow> snd (generate_full_parameter config self) = self"
  unfolding generate_full_parameter_def Let_def
  by (simp split: option.splits sum.splits if_splits prod.splits)

theorem error_leaves_lists_unchanged_witness:
  "fst (generate_full_parameter unlabelled_config init) = Inl (KeyError ''label'')
   \<and> snd (generate_full_parameter unlabelled_config init) = init"
proof -
  have a: "fst (generate_full_parameter unlabelled_config init) = Inl (KeyError ''label'')"
    by (simp add: compile_defs distortion_config_def unlabelled_config_def)
  from error_leaves_lists_unchanged [OF a] a show ?thesis by simp
qed

section \<open>The four views\<close>

lemma compile_all_results:
  "Inr r \<in> set (fst (compile_all configs self))
   \<Longrightarrow> \<exists>config s s'. generate_full_parameter config s = (Inr r, s')"
proof (induction configs arbitrary: self)
  case Nil
  then show ?case by simp
next
  case (Cons config configs)
  obtain r0 self' where g: "generate_full_parameter config self = (r0, self')"
    by (cases "generate_full_parameter config self")
  obtain rs self'' where c: "compile_all configs self' = (rs, self'')"
    by (cases "compile_all configs self'")
  from Cons.prems g c have "Inr r = r0 \<or> Inr r \<in> set (fst (compile_all configs self'))"
    by auto
  then show ?case
  proof
    assume "Inr r = r0"
    with g show ?thesis by metis
  next
    assume "Inr r \<in> set (fst (compile_all configs self'))"
    then show ?thesis by (rule Cons.IH)
  qed
qed

text \<open>
  C7. For every sequence of compilations and every result dictionary one of them returned,
  read in any state \<open>s\<close> of the generator (the state at the return, or after later calls):
  the two slider views are the same list, the slider list of \<open>s\<close>, and the two dropdown
  views are the same list, the dropdown list of \<open>s\<close>.
\<close>

theorem views_pairwise_identical:
  assumes "Inr r \<in> set (fst (compile_all configs self))"
  shows "view s r ''setupParameterListeners_sliders'' = view s r ''loadParamsToModal_sliders''
       \<and> view s r ''setupParameterListeners_dropdowns'' = view s r ''loadParamsToModal_dropdowns''
       \<and> view s r ''setupParameterListeners_sliders'' = Some (slider s)
       \<and> view s r ''setupParameterListeners_dropdowns'' = Some (dropdown s)"
proof -
  from compile_all_results [OF assms] obtain config s0 s' where
    "generate_full_parameter config s0 = (Inr r, s')" by blast
  from returned_views [OF this, of s] show ?thesis by simp
qed

theorem views_pairwise_identical_witness:
  "\<exists>r1 r2 s. compile_all [distortion_config, filter_type_config] init = ([Inr r1, Inr r2], s)
     \<and> view s r1 ''setupParameterListeners_sliders'' = view s r1 ''loadParamsToModal_sliders''
     \<and> view s r1 ''setupParameterListeners_dropdowns'' = view s r1 ''loadParamsToModal_dropdowns''
     \<and> view s r1 ''setupParameterListeners_sliders'' = Some (slider init @ [PStr ''distortion''])
     \<and> view s r1 ''setupParameterListeners_dropdowns'' = Some (dropdown init @ [PStr ''filtertype''])"
proof -
  obtain r1 r2 s where c: "compile_all [distortion_config, filter_type_config] init = ([Inr r1, Inr r2], s)"
    by (simp add: compile_defs distortion_config_def filter_type_config_def)
  have s: "slider s = slider init @ [PStr ''distortion'']"
    "dropdown s = dropdown init @ [PStr ''filtertype'']"
    using c by (auto simp: compile_defs distortion_config_def filter_type_config_def)
  have "Inr r1 \<in> set (fst (compile_all [distortion_config, filter_type_config] init))"
    using c by simp
  from views_pairwise_identical [OF this, of s] c s show ?thesis by metis
qed

section \<open>The default-value entry\<close>

text \<open>
  C8 (amended). For a descriptor of either kind the default-value entry is the name, a
  colon and a space, and the default value between apostrophes; the default value is the
  configuration's \<^verbatim>\<open>default\<close>, or \<^verbatim>\<open>0\<close> when it has none. A slider's numeric default
  is quoted like a dropdown's token.
\<close>

theorem default_param_always_quoted:
  assumes "generate_full_parameter config self = (Inr r, self')"
  shows "\<exists>n. cfg_name config = Some n
           \<and> r ''default_param'' = Some (Text (PStr (py_str n @ '': '' @ apostrophe
                 @ py_str (or_default (cfg_default config) (PStr ''0'')) @ apostrophe)))"
  using returned [OF assms] by (auto simp: generate_default_param_def)

theorem default_param_always_quoted_witness:
  "\<exists>r s. generate_full_parameter cutoff_config init = (Inr r, s)
     \<and> r ''default_param'' = Some (Text (PStr (''filtercutoff: '' @ apostrophe @ ''500'' @ apostrophe)))"
proof -
  obtain r s where a: "generate_full_parameter cutoff_config init = (Inr r, s)"
    by (simp add: compile_defs cutoff_config_def)
  have b: "cfg_name cutoff_config = Some (PStr ''filtercutoff'')"
    "py_str (or_default (cfg_default cutoff_config) (PStr ''0'')) = ''500''"
    by (simp_all add: compile_defs cutoff_config_def str_of_int_def str_of_nat.simps digit_def)
  from default_param_always_quoted [OF a] a b show ?thesis by auto
qed

text \<open>
  Counterexample to C8 as stated: the distortion slider of the script has the default
  \<^verbatim>\<open>0\<close>, an integer, and its entry is \<^verbatim>\<open>distortion: '0'\<close>, not \<^verbatim>\<open>distortion: 0\<close>.
\<close>

theorem default_param_counterexample:
  "generate_default_param (PStr ''distortion'') (PInt 0)
     = ''distortion: '' @ apostrophe @ ''0'' @ apostrophe
   \<and> generate_default_param (PStr ''distortion'') (PInt 0) \<noteq> ''distortion: 0''
   \<and> (case fst (generate_full_parameter distortion_config init) of
         Inr r \<Rightarrow> r ''default_param'' | Inl e \<Rightarrow> None)
       = Some (Text (PStr (''distortion: '' @ apostrophe @ ''0'' @ apostrophe)))"
  by (simp add: compile_defs distortion_config_def generate_default_param_def apostrophe_def str_of_int_def
      str_of_nat.simps digit_def)

section \<open>Dispatch on the kind\<close>

text \<open>
  C9. A configuration with a name and any \<^verbatim>\<open>type\<close> other than the string
  \<^verbatim>\<open>slider\<close> takes the dropdown branch: without \<^verbatim>\<open>label\<close> it raises
  \<^verbatim>\<open>KeyError('label')\<close>, with a label and without \<^verbatim>\<open>options\<close> it raises
  \<^verbatim>\<open>KeyError('options')\<close>; with both, it fails as \<open>generate_dropdown_html\<close> fails, or
  returns a result whose markup is the dropdown markup and which has no
  \<^verbatim>\<open>display_formatter\<close> and no \<^verbatim>\<open>parser\<close> entry, the name being appended to the
  dropdown list.
\<close>

theorem non_slider_is_dropdown:
  assumes "cfg_name config = Some n" "cfg_type config = Some t" "t \<noteq> PStr ''slider''"
  shows "(cfg_label config = None \<longrightarrow>
            generate_full_parameter config self = (Inl (KeyError ''label''), self))
       \<and> (cfg_label config \<noteq> None \<and> cfg_options config = None \<longrightarrow>
            generate_full_parameter config self = (Inl (KeyError ''options''), self))
       \<and> (\<forall>label options. cfg_label config = Some label \<and> cfg_options config = Some options \<longrightarrow>
            (case generate_dropdown_html n label options of
               Inl e \<Rightarrow> generate_full_parameter config self = (Inl e, self)
             | Inr html \<Rightarrow>
                 (\<exists>r. generate_full_parameter config self
                        = (Inr r, self\<lparr>dropdown := dropdown self @ [n]\<rparr>)
                    \<and> r ''html'' = Some (Text (PStr html))
                    \<and> r ''display_formatter'' = None \<and> r ''parser'' = None)))"
  using assms unfolding generate_full_parameter_def Let_def add_to_lists_def
  by (auto split: sum.splits)

theorem non_slider_is_dropdown_witness:
  "\<exists>r html. generate_full_parameter continuous_config init
        = (Inr r, init\<lparr>dropdown := dropdown init @ [PStr ''filtertype'']\<rparr>)
     \<and> generate_dropdown_html (PStr ''filtertype'') (PStr ''Filter Type'')
          (the (cfg_options filter_type_config)) = Inr html
     \<and> r ''html'' = Some (Text (PStr html))
     \<and> r ''display_formatter'' = None \<and> r ''parser'' = None"
proof -
  have a: "cfg_name continuous_config = Some (PStr ''filtertype'')"
    "cfg_type continuous_config = Some (PStr ''continuous'')"
    "PStr ''continuous'' \<noteq> PStr ''slider''"
    "cfg_label continuous_config = Some (PStr ''Filter Type'')"
    "cfg_options continuous_config = Some (the (cfg_options filter_type_config))"
    by (simp_all add: continuous_config_def filter_type_config_def no_config_def)
  obtain html where h: "generate_dropdown_html (PStr ''filtertype'') (PStr ''Filter Type'')
          (the (cfg_options filter_type_config)) = Inr html"
    by (simp add: compile_defs filter_type_config_def continuous_config_def)
  from non_slider_is_dropdown [OF a(1,2,3), of init] a(4,5) h show ?thesis
    by auto
qed

section \<open>Unknown codec names\<close>

text \<open>
  C5. For every parameter name, every option bag and every codec name that is not one of
  the six keys of the tables (\<^verbatim>\<open>percentage\<close>, \<^verbatim>\<open>db\<close>, \<^verbatim>\<open>semitones\<close>, \<^verbatim>\<open>ms\<close>,
  \<^verbatim>\<open>hz\<close>, \<^verbatim>\<open>custom\<close>), \<open>generate_display_formatter\<close> and \<open>generate_parser\<close>
  return what they return for \<^verbatim>\<open>percentage\<close> with the same name and options.
\<close>

theorem unknown_codec_falls_back:
  "format_type \<notin> {PStr ''percentage'', PStr ''db'', PStr ''semitones'', PStr ''ms'',
                    PStr ''hz'', PStr ''custom''}
   \<Longrightarrow> generate_display_formatter param_name format_type kwargs
         = generate_display_formatter param_name (PStr ''percentage'') kwargs
     \<and> generate_parser param_name format_type kwargs
         = generate_parser param_name (PStr ''percentage'') kwargs"
  by (simp add: generate_display_formatter_def generate_parser_def formatters_def parsers_def)

theorem unknown_codec_falls_back_witness:
  "generate_display_formatter (PStr ''distortion'') (PStr ''percent'') [''divisor'' \<mapsto> PInt 4]
     = generate_display_formatter (PStr ''distortion'') (PStr ''percentage'') [''divisor'' \<mapsto> PInt 4]
   \<and> generate_parser (PStr ''distortion'') (PStr ''percent'') [''divisor'' \<mapsto> PInt 4]
     = generate_parser (PStr ''distortion'') (PStr ''percentage'') [''divisor'' \<mapsto> PInt 4]
   \<and> generate_parser (PStr ''distortion'') (PStr ''percent'') [''divisor'' \<mapsto> PInt 4]
     = PStr ''return Math.round(val * 10);''"
proof -
  have a: "PStr ''percent'' \<notin> {PStr ''percentage'', PStr ''db'', PStr ''semitones'', PStr ''ms'',
                    PStr ''hz'', PStr ''custom''}"
    by simp
  have b: "generate_parser (PStr ''distortion'') (PStr ''percentage'') [''divisor'' \<mapsto> PInt 4]
     = PStr ''return Math.round(val * 10);''"
    by (simp add: generate_parser_def parsers_def)
  from unknown_codec_falls_back [OF a, of "PStr ''distortion''" "[''divisor'' \<mapsto> PInt 4]"] b
  show ?thesis by simp
qed

section \<open>The value span of a slider\<close>

text \<open>
  C10. Whatever the name, label, range and default value of a slider, its markup ends with
  the value span holding the literal text \<^verbatim>\<open>0.0%\<close> and the two closing \<^verbatim>\<open>div\<close> tags:
  the span's content is not computed from the default value or the codec.
\<close>

theorem slider_span_is_literal:
  \<open>suffix (''<span class="param-value" id="'' @ py_str param_name
            @ ''-val">0.0%</span>\<newline>    </div>\<newline></div>'')
     (generate_slider_html param_name label min_val max_val default_val)\<close>
  unfolding generate_slider_html_def suffix_def
  by simp

section \<open>Descriptor text in the markup\<close>

lemma join_member: "l \<in> set ls \<Longrightarrow> sublist l (join sep ls)"
proof (induction sep ls rule: join.induct)
  case (1 sep)
  then show ?case by simp
next
  case (2 sep x)
  then show ?case by simp
next
  case (3 sep x y ys)
  show ?case
  proof (cases "l = x")
    case True
    then show ?thesis by simp
  next
    case False
    with 3 have "sublist l (join sep (y # ys))" by simp
    moreover have "sublist (join sep (y # ys)) (join sep (x # y # ys))"
      using sublist_append_leftI [of "join sep (y # ys)" "x @ sep"] by simp
    ultimately show ?thesis by (rule sublist_order.order_trans)
  qed
qed

lemma option_lines_member:
  "option_lines options = Inr ls \<Longrightarrow> opt \<in> set options
   \<Longrightarrow> \<exists>l. option_line opt = Inr l \<and> l \<in> set ls"
  by (induction options arbitrary: ls) (auto split: sum.splits)

lemma slider_label_verbatim:
  \<open>sublist (''<label class="param-label">'' @ py_str label @ ''</label>'')
     (generate_slider_html param_name label min_val max_val default_val)\<close>
proof -
  have \<open>\<exists>ps ss. generate_slider_html param_name label min_val max_val default_val
          = ps @ (''<label class="param-label">'' @ py_str label @ ''</label>'') @ ss\<close>
    unfolding generate_slider_html_def
    by (intro exI [of _ \<open>''<div class="param">\<newline>    ''\<close>] exI) simp
  then show ?thesis by (auto simp: sublist_def)
qed

lemma dropdown_verbatim:
  assumes \<open>generate_dropdown_html param_name label options = Inr html\<close>
  shows \<open>sublist (''<label class="param-label">'' @ py_str label @ ''</label>'') html
       \<and> (\<forall>opt \<in> set options. \<exists>v l. opt ''value'' = Some v \<and> opt ''label'' = Some l
             \<and> sublist (''<option value="'' @ py_str v @ ''">'' @ py_str l @ ''</option>'') html)\<close>
proof -
  from assms obtain ls where ls: "option_lines options = Inr ls"
    and html: \<open>html = ''<div class="param">\<newline>''
                   @ ''    <label class="param-label">'' @ py_str label @ ''</label>\<newline>''
                   @ ''    <select class="select" id="'' @ py_str param_name @ ''">\<newline>''
                   @ join ''\<newline>'' ls @ ''\<newline>''
                   @ ''    </select>\<newline>''
                   @ ''</div>''\<close>
    unfolding generate_dropdown_html_def Let_def by (auto split: sum.splits)
  have \<open>\<exists>ps ss. html = ps @ (''<label class="param-label">'' @ py_str label @ ''</label>'') @ ss\<close>
    unfolding html by (intro exI [of _ \<open>''<div class="param">\<newline>    ''\<close>] exI) simp
  then have a: \<open>sublist (''<label class="param-label">'' @ py_str label @ ''</label>'') html\<close>
    by (auto simp: sublist_def)
  have j: \<open>sublist (join ''\<newline>'' ls) html\<close>
    unfolding html sublist_def
    by (intro exI [of _ \<open>''<div class="param">\<newline>''
                   @ ''    <label class="param-label">'' @ py_str label @ ''</label>\<newline>''
                   @ ''    <select class="select" id="'' @ py_str param_name @ ''">\<newline>''\<close>] exI) simp
  have b: \<open>\<exists>v l. opt ''value'' = Some v \<and> opt ''label'' = Some l
             \<and> sublist (''<option value="'' @ py_str v @ ''">'' @ py_str l @ ''</option>'') html\<close>
    if opt: \<open>opt \<in> set options\<close> for opt
  proof -
    from option_lines_member [OF ls opt] obtain line where
      line: "option_line opt = Inr line" "line \<in> set ls" by blast
    from line(1) obtain v l where vl: \<open>opt ''value'' = Some v\<close> \<open>opt ''label'' = Some l\<close>
      and line_eq: \<open>line = ''                <option value="'' @ py_str v @ ''">'' @ py_str l @ ''</option>''\<close>
      unfolding option_line_def by (auto split: option.splits)
    have \<open>sublist (''<option value="'' @ py_str v @ ''">'' @ py_str l @ ''</option>'') line\<close>
      unfolding line_eq sublist_def
      by (intro exI [of _ \<open>''                ''\<close>] exI [of _ \<open>[]\<close>]) simp
    moreover have "sublist line (join ''\<newline>'' ls)"
      using line(2) by (rule join_member)
    ultimately have \<open>sublist (''<option value="'' @ py_str v @ ''">'' @ py_str l @ ''</option>'') html\<close>
      using j by (meson sublist_order.order_trans)
    with vl show ?thesis by blast
  qed
  from a b show ?thesis by blast
qed

text \<open>
  C2 (amended). The label of a descriptor, and the value and label of every option of a
  dropdown, are interpolated into the markup as they are: the slider markup contains the
  label element with the label's own text, and a dropdown markup contains the label
  element and, for each option, the option element with the option's own value and label.
  No character is replaced.
\<close>

theorem descriptor_text_verbatim:
  \<open>sublist (''<label class="param-label">'' @ py_str label @ ''</label>'')
     (generate_slider_html param_name label min_val max_val default_val)
   \<and> (\<forall>html. generate_dropdown_html param_name label options = Inr html \<longrightarrow>
         sublist (''<label class="param-label">'' @ py_str label @ ''</label>'') html
         \<and> (\<forall>opt \<in> set options. \<exists>v l. opt ''value'' = Some v \<and> opt ''label'' = Some l
               \<and> sublist (''<option value="'' @ py_str v @ ''">'' @ py_str l @ ''</option>'') html))\<close>
  using slider_label_verbatim dropdown_verbatim by blast

theorem descriptor_text_verbatim_witness:
  \<open>sublist ''<label class="param-label">a<b&c</label>''
     (generate_slider_html (PStr ''cut'') (PStr ''a<b&c'') (PInt 0) (PInt 10) (PInt 0))
   \<and> (\<exists>html. generate_dropdown_html (PStr ''cut'') (PStr ''a<b&c'') reserved_options = Inr html
         \<and> sublist ''<label class="param-label">a<b&c</label>'' html
         \<and> sublist ''<option value="<1>">R&B</option>'' html)\<close>
proof -
  obtain html where h: "generate_dropdown_html (PStr ''cut'') (PStr ''a<b&c'') reserved_options = Inr html"
    by (simp add: generate_dropdown_html_def option_line_def reserved_options_def)
  have o: \<open>[''value'' \<mapsto> PStr ''<1>'', ''label'' \<mapsto> PStr ''R&B''] \<in> set reserved_options\<close>
    by (simp add: reserved_options_def)
  from descriptor_text_verbatim [of "PStr ''a<b&c''" "PStr ''cut''" "PInt 0" "PInt 10" "PInt 0"
      reserved_options] h o
  show ?thesis by fastforce
qed

text \<open>
  Counterexample to C2 as stated: the slider markup for the label \<^verbatim>\<open>a<b&c\<close> holds the
  label raw, and the escaped label \<^verbatim>\<open>a&lt;b&amp;c\<close> occurs nowhere in it.
\<close>

theorem escaping_counterexample:
  \<open>generate_slider_html (PStr ''cut'') (PStr ''a<b&c'') (PInt 0) (PInt 10) (PInt 0)
     = ''<div class="param">\<newline>    <label class="param-label">a<b&c</label>\<newline>    <div class="param-control">\<newline>        <input type="range" class="slider" id="cut" min="0" max="10" value="0">\<newline>        <span class="param-value" id="cut-val">0.0%</span>\<newline>    </div>\<newline></div>''
   \<and> spec_escape ''a<b&c'' = ''a&lt;b&amp;c''
   \<and> \<not> sublist (spec_escape ''a<b&c'')
         (generate_slider_html (PStr ''cut'') (PStr ''a<b&c'') (PInt 0) (PInt 10) (PInt 0))\<close>
proof -
  have \<open>\<not> sublist (spec_escape ''a<b&c'')
         (generate_slider_html (PStr ''cut'') (PStr ''a<b&c'') (PInt 0) (PInt 10) (PInt 0))\<close>
    by code_simp
  then show ?thesis
    by (simp add: generate_slider_html_def str_of_int_def str_of_nat.simps digit_def spec_escape_def)
qed

end
